theory Spec2Isabelle
  imports Complex_Main
begin

section \<open>Guillotine bin packing: the engine of \<^verbatim>\<open>greedypacker/guillotine.py\<close>\<close>

text \<open>
  The engine is embedded function by function.  Python's unbounded integers are \<open>int\<close>,
  lists are lists (the free rectangles are a Python list, so order and duplicates are
  kept), mutation of \<^verbatim>\<open>self\<close> and of the item is explicit state passing, and every
  exception the code can raise is a value \<open>Inl e\<close>.

  Field names carry a prefix, since \<^verbatim>\<open>width\<close>, \<^verbatim>\<open>height\<close>, \<^verbatim>\<open>x\<close> and \<^verbatim>\<open>y\<close> are
  fields of several classes of the source: \<open>rect_\<close> for \<^verbatim>\<open>FreeRectangle\<close>,
  \<open>item_\<close> for \<^verbatim>\<open>Item\<close>, \<open>bin_\<close> for \<^verbatim>\<open>Guillotine.x\<close> and \<^verbatim>\<open>Guillotine.y\<close>.
\<close>

subsection \<open>Exceptions\<close>

datatype py_error = ValueError | ZeroDivisionError

definition bind_err :: "py_error + 'a \<Rightarrow> ('a \<Rightarrow> py_error + 'b) \<Rightarrow> py_error + 'b" where
  "bind_err m f = (case m of Inl e \<Rightarrow> Inl e | Inr v \<Rightarrow> f v)"

text \<open>\<^verbatim>\<open>list.remove(v)\<close>: deletes the first element equal to \<^verbatim>\<open>v\<close>, raises
  \<^verbatim>\<open>ValueError\<close> when there is none.\<close>

definition list_remove :: "'a \<Rightarrow> 'a list \<Rightarrow> py_error + 'a list" where
  "list_remove v xs = (if v \<in> set xs then Inr (remove1 v xs) else Inl ValueError)"

subsection \<open>FreeRectangle\<close>

text \<open>The named tuple \<^verbatim>\<open>FreeRectangle(width, height, x, y)\<close>; equality is structural.\<close>

datatype FreeRectangle =
  FreeRectangle (rect_width: int) (rect_height: int) (rect_x: int) (rect_y: int)

definition area :: "FreeRectangle \<Rightarrow> int" where
  "area r = rect_width r * rect_height r"

text \<open>Python orders tuples lexicographically; \<^verbatim>\<open>min(A, B)\<close> returns \<^verbatim>\<open>B\<close> only when
  \<^verbatim>\<open>B < A\<close>, otherwise \<^verbatim>\<open>A\<close>.\<close>

definition rect_less :: "FreeRectangle \<Rightarrow> FreeRectangle \<Rightarrow> bool" where
  "rect_less a b =
     (if rect_width a \<noteq> rect_width b then rect_width a < rect_width b
      else if rect_height a \<noteq> rect_height b then rect_height a < rect_height b
      else if rect_x a \<noteq> rect_x b then rect_x a < rect_x b
      else rect_y a < rect_y b)"

definition rect_min :: "FreeRectangle \<Rightarrow> FreeRectangle \<Rightarrow> FreeRectangle" where
  "rect_min a b = (if rect_less b a then b else a)"

subsection \<open>Item\<close>

text \<open>
  Modelled from the spec: the class \<^verbatim>\<open>Item\<close> of the module \<^verbatim>\<open>item\<close>, which the engine
  imports.  The spec gives an item a width, a height, a placement that is unset until the
  engine places it, and a rotation flag, and says that rotating swaps width and height.
  The engine reads \<^verbatim>\<open>item.width\<close> and \<^verbatim>\<open>item.height\<close>, assigns
  \<^verbatim>\<open>item.CornerPoint\<close> and calls \<^verbatim>\<open>item.rotate()\<close>.
\<close>

record Item =
  item_width :: int
  item_height :: int
  CornerPoint :: "(int \<times> int) option"
  rotated :: bool

definition new_item :: "int \<Rightarrow> int \<Rightarrow> Item" where
  "new_item w h = \<lparr>item_width = w, item_height = h, CornerPoint = None, rotated = False\<rparr>"

definition rotate :: "Item \<Rightarrow> Item" where
  "rotate it = it\<lparr>item_width := item_height it, item_height := item_width it,
                  rotated := \<not> rotated it\<rparr>"

subsection \<open>The engine state and its constructor\<close>

record Guillotine =
  bin_x :: int
  bin_y :: int
  rMerge :: bool
  split_heuristic :: string
  freerects :: "FreeRectangle list"
  items :: "Item list"
  rotation :: bool

text \<open>\<^verbatim>\<open>Guillotine.__init__(x, y, rotation, rectangle_merge, split_heuristic)\<close>\<close>

definition init :: "int \<Rightarrow> int \<Rightarrow> bool \<Rightarrow> bool \<Rightarrow> string \<Rightarrow> Guillotine" where
  "init bx by rot rm sh =
     \<lparr>bin_x = bx, bin_y = by, rMerge = rm, split_heuristic = sh,
      freerects = (if bx = 0 \<or> by = 0 then [] else [FreeRectangle bx by 0 0]),
      items = [], rotation = rot\<rparr>"

subsection \<open>Fit query\<close>

definition fitted_rects :: "Guillotine \<Rightarrow> Item \<Rightarrow> bool \<Rightarrow> FreeRectangle list" where
  "fitted_rects g it rot =
     (let w = (if \<not> rot then item_width it else item_height it);
          h = (if \<not> rot then item_height it else item_width it)
      in filter (\<lambda>rect. rect_width rect \<ge> w \<and> rect_height rect \<ge> h) (freerects g))"

subsection \<open>Splitting\<close>

definition split_along_axis :: "FreeRectangle \<Rightarrow> Item \<Rightarrow> bool \<Rightarrow> FreeRectangle list" where
  "split_along_axis freeRect it split =
     (let top_x = rect_x freeRect;
          top_y = rect_y freeRect + item_height it;
          top_h = rect_height freeRect - item_height it;
          right_x = rect_x freeRect + item_width it;
          right_y = rect_y freeRect;
          right_w = rect_width freeRect - item_width it;
          top_w = (if split then rect_width freeRect else item_width it);
          right_h = (if split then item_height it else rect_height freeRect)
      in (if right_w > 0 \<and> right_h > 0 then [FreeRectangle right_w right_h right_x right_y] else [])
       @ (if top_w > 0 \<and> top_h > 0 then [FreeRectangle top_w top_h top_x top_y] else []))"

text \<open>The axis that \<^verbatim>\<open>_split_free_rect\<close> computes before it calls
  \<^verbatim>\<open>_split_along_axis\<close>; \<open>True\<close> is the horizontal split.\<close>

definition split_axis :: "string \<Rightarrow> Item \<Rightarrow> FreeRectangle \<Rightarrow> bool" where
  "split_axis sh it freeRect =
     (let w = rect_width freeRect - item_width it;
          h = rect_height freeRect - item_height it
      in if sh = ''SplitShorterLeftoverAxis'' then w \<le> h
         else if sh = ''SplitLongerLeftoverAxis'' then w > h
         else if sh = ''SplitMinimizeArea'' then item_width it * h > w * item_height it
         else if sh = ''SplitMaximizeArea'' then item_width it * h \<le> w * item_height it
         else if sh = ''SplitShorterAxis'' then rect_width freeRect \<le> rect_height freeRect
         else if sh = ''SplitLongerAxis'' then rect_width freeRect > rect_height freeRect
         else True)"

definition split_free_rect :: "Guillotine \<Rightarrow> Item \<Rightarrow> FreeRectangle \<Rightarrow> FreeRectangle list" where
  "split_free_rect g it freeRect =
     split_along_axis freeRect it (split_axis (split_heuristic g) it freeRect)"

subsection \<open>Choosing a free rectangle\<close>

text \<open>The argument \<^verbatim>\<open>field\<close> of \<^verbatim>\<open>_rectangle_reduce\<close> is one of the three literals
  \<^verbatim>\<open>'width'\<close>, \<^verbatim>\<open>'height'\<close>, \<^verbatim>\<open>'area'\<close> at every call of \<^verbatim>\<open>insert\<close>.\<close>

datatype field = Width | Height | Area

fun field_of :: "field \<Rightarrow> FreeRectangle \<Rightarrow> int" where
  "field_of Width r = rect_width r"
| "field_of Height r = rect_height r"
| "field_of Area r = area r"

text \<open>\<^verbatim>\<open>reduce(compare, fitted_rects)\<close> with
  \<^verbatim>\<open>compare = lambda a, b: a if op(a.f, b.f) else b\<close>; \<open>None\<close> for the empty list.\<close>

definition rectangle_reduce ::
  "FreeRectangle list \<Rightarrow> (int \<Rightarrow> int \<Rightarrow> bool) \<Rightarrow> field \<Rightarrow> FreeRectangle option" where
  "rectangle_reduce fitted op f =
     (case fitted of
        [] \<Rightarrow> None
      | r # rs \<Rightarrow> Some (foldl (\<lambda>a b. if op (field_of f a) (field_of f b) then a else b) r rs))"

fun compare_two_freerects :: "FreeRectangle option \<Rightarrow> FreeRectangle option \<Rightarrow> FreeRectangle option" where
  "compare_two_freerects None None = None"
| "compare_two_freerects (Some a) (Some b) = Some (rect_min a b)"
| "compare_two_freerects (Some a) None = Some a"
| "compare_two_freerects None (Some b) = Some b"

subsection \<open>Placement\<close>

text \<open>
  A placement returns the result of the call, the item as the call leaves it, and the
  engine as the call leaves it.  The rectangle given to \<^verbatim>\<open>self.freerects.remove\<close> is
  taken from \<^verbatim>\<open>self.freerects\<close>, so that call cannot raise and is \<open>remove1\<close>.
\<close>

definition place :: "Guillotine \<Rightarrow> Item \<Rightarrow> FreeRectangle \<Rightarrow> bool \<times> Item \<times> Guillotine" where
  "place g it freerect =
     (let it' = it\<lparr>CornerPoint := Some (rect_x freerect, rect_y freerect)\<rparr>
      in (True, it',
          g\<lparr>items := items g @ [it'],
            freerects := remove1 freerect (freerects g) @ split_free_rect g it' freerect\<rparr>))"

definition first_fit :: "Guillotine \<Rightarrow> Item \<Rightarrow> bool \<times> Item \<times> Guillotine" where
  "first_fit g it =
     (let fitted = fitted_rects g it False;
          (fitted', it') =
            (if fitted = [] \<and> rotation g
             then (let fr = fitted_rects g it True
                   in (fr, if fr \<noteq> [] then rotate it else it))
             else (fitted, it))
      in case fitted' of
           [] \<Rightarrow> (False, it', g)
         | freerect # _ \<Rightarrow> place g it' freerect)"

definition generic_algo ::
  "Guillotine \<Rightarrow> Item \<Rightarrow> field \<Rightarrow> (int \<Rightarrow> int \<Rightarrow> bool) \<Rightarrow> bool \<times> Item \<times> Guillotine" where
  "generic_algo g it heuristic op =
     (let smallest_rect = rectangle_reduce (fitted_rects g it False) op heuristic;
          (best, it') =
            (if rotation g
             then (let smallest_rotated = rectangle_reduce (fitted_rects g it True) op heuristic;
                       best = compare_two_freerects smallest_rect smallest_rotated
                   in (best, if best = smallest_rotated then rotate it else it))
             else (smallest_rect, it))
      in case best of
           None \<Rightarrow> (False, it', g)
         | Some b \<Rightarrow> place g it' b)"

subsection \<open>Rectangle merge\<close>

text \<open>One iteration of the loop body of \<^verbatim>\<open>rectangle_merge\<close>, on the list as it is when
  the iteration starts.  The two \<^verbatim>\<open>if\<close> statements run one after the other; the
  second one reads the list as the first one left it, with \<^verbatim>\<open>matching_heights\<close>
  computed before.\<close>

definition merge_step :: "FreeRectangle \<Rightarrow> FreeRectangle list \<Rightarrow> py_error + FreeRectangle list" where
  "merge_step freerect frs =
     (let matching_widths =
            filter (\<lambda>r. (rect_width r = rect_width freerect \<and> rect_x r = rect_x freerect)
                        \<and> r \<noteq> freerect) frs;
          matching_heights =
            filter (\<lambda>r. (rect_height r = rect_height freerect \<and> rect_y r = rect_y freerect)
                        \<and> r \<noteq> freerect) frs
      in bind_err
           (if matching_widths \<noteq> [] then
              (case filter (\<lambda>r. rect_y r = rect_y freerect + rect_height freerect) frs of
                 [] \<Rightarrow> Inr frs
               | match_rect # _ \<Rightarrow>
                   bind_err (list_remove freerect frs) (\<lambda>frs1.
                   bind_err (list_remove match_rect frs1) (\<lambda>frs2.
                   Inr (frs2 @ [FreeRectangle (rect_width freerect)
                                  (rect_height freerect + rect_height match_rect)
                                  (rect_x freerect) (rect_y freerect)]))))
            else Inr frs)
           (\<lambda>frs'.
              if matching_heights \<noteq> [] then
                (case filter (\<lambda>r. rect_x r = rect_x freerect + rect_width freerect) frs' of
                   [] \<Rightarrow> Inr frs'
                 | match_rect # _ \<Rightarrow>
                     bind_err (list_remove freerect frs') (\<lambda>frs1.
                     bind_err (list_remove match_rect frs1) (\<lambda>frs2.
                     Inr (frs2 @ [FreeRectangle (rect_width freerect + rect_width match_rect)
                                    (rect_height freerect)
                                    (rect_x freerect) (rect_y freerect)]))))
              else Inr frs'))"

text \<open>The \<^verbatim>\<open>for freerect in self.freerects\<close> loop.  Python's list iterator keeps an
  index into the list it walks, reads the list as it is at each step and stops when the
  index reaches the current length; the body changes the list meanwhile.\<close>

function merge_loop :: "nat \<Rightarrow> FreeRectangle list \<Rightarrow> py_error + FreeRectangle list" where
  "merge_loop i frs =
     (if i < length frs
      then (case merge_step (frs ! i) frs of
              Inl e \<Rightarrow> Inl e
            | Inr frs' \<Rightarrow> merge_loop (Suc i) frs')
      else Inr frs)"
  by pat_completeness auto
termination
proof (relation "measure (\<lambda>(i, frs). length frs - i)")
  show "wf (measure (\<lambda>(i, frs). length frs - i))"
    by simp
next
  fix i :: nat and frs frs' :: "FreeRectangle list"
  assume i: "i < length frs" and step: "merge_step (frs ! i) frs = Inr frs'"
  have rem: "Suc (length ys) = length xs"
    if "list_remove v xs = Inr ys" for v :: FreeRectangle and xs ys
  proof -
    from that have v: "v \<in> set xs" and ys: "ys = remove1 v xs"
      by (auto simp: list_remove_def split: if_splits)
    from v have "0 < length xs"
      by (rule length_pos_if_in_set)
    with v ys show ?thesis
      by (simp add: length_remove1)
  qed
  have "length frs' \<le> length frs"
    using step unfolding merge_step_def Let_def bind_err_def
    by (auto split: if_splits list.splits sum.splits dest!: rem)
  with i show "((Suc i, frs'), (i, frs)) \<in> measure (\<lambda>(i, frs). length frs - i)"
    by simp
qed

declare merge_loop.simps [simp del]

definition rectangle_merge :: "Guillotine \<Rightarrow> py_error + Guillotine" where
  "rectangle_merge g =
     bind_err (merge_loop 0 (freerects g)) (\<lambda>frs. Inr (g\<lparr>freerects := frs\<rparr>))"

subsection \<open>insert\<close>

text \<open>Every branch of \<^verbatim>\<open>insert\<close> ends the same way: on success the merge pass runs when
  \<^verbatim>\<open>rMerge\<close> is set and the call returns \<^verbatim>\<open>True\<close>; otherwise control falls through to
  \<^verbatim>\<open>return False\<close>.\<close>

definition after_placement ::
  "bool \<times> Item \<times> Guillotine \<Rightarrow> py_error + (bool \<times> Item \<times> Guillotine)" where
  "after_placement r =
     (case r of (res, it', g') \<Rightarrow>
        if res then
          (if rMerge g'
           then bind_err (rectangle_merge g') (\<lambda>g''. Inr (True, it', g''))
           else Inr (True, it', g'))
        else Inr (False, it', g'))"

text \<open>The parameter \<^verbatim>\<open>split_heuristic\<close> of \<^verbatim>\<open>insert\<close> is handed to
  \<^verbatim>\<open>_generic_algo\<close>, which never reads it: the split follows
  \<^verbatim>\<open>self.split_heuristic\<close>.\<close>

definition insert_item ::
  "Guillotine \<Rightarrow> Item \<Rightarrow> string \<Rightarrow> py_error + (bool \<times> Item \<times> Guillotine)" where
  "insert_item g it heuristic =
     (if heuristic = ''first_fit'' then after_placement (first_fit g it)
      else if heuristic = ''best_width_fit'' then after_placement (generic_algo g it Width (<))
      else if heuristic = ''best_height_fit'' then after_placement (generic_algo g it Height (<))
      else if heuristic = ''best_area_fit'' then after_placement (generic_algo g it Area (<))
      else if heuristic = ''worst_width_fit'' then after_placement (generic_algo g it Width (>))
      else if heuristic = ''worst_height_fit'' then after_placement (generic_algo g it Height (>))
      else if heuristic = ''worst_area_fit'' then after_placement (generic_algo g it Area (>))
      else Inr (False, it, g))"

text \<open>A sequence of \<^verbatim>\<open>insert\<close> calls, each with an item of its own: the results
  of the calls in order and the engine after the last one.  The run stops at the first
  exception.\<close>

fun insert_seq :: "Guillotine \<Rightarrow> (Item \<times> string) list \<Rightarrow> py_error + (bool list \<times> Guillotine)" where
  "insert_seq g [] = Inr ([], g)"
| "insert_seq g ((it, h) # rest) =
     bind_err (insert_item g it h) (\<lambda>(res, it', g').
     bind_err (insert_seq g' rest) (\<lambda>(ress, g'').
     Inr (res # ress, g'')))"

subsection \<open>Statistics\<close>

text \<open>The dictionary returned by \<^verbatim>\<open>bin_stats\<close>.  Python's \<^verbatim>\<open>/\<close> on integers is true
  division and raises \<^verbatim>\<open>ZeroDivisionError\<close> when the divisor is zero; the quotient is
  taken here as the exact rational.\<close>

record stats =
  stats_width :: int
  stats_height :: int
  stats_area :: int
  stats_efficiency :: rat
  stats_items :: "Item list"

definition bin_stats :: "Guillotine \<Rightarrow> py_error + stats" where
  "bin_stats g =
     (if bin_x g * bin_y g = 0 then Inl ZeroDivisionError
      else Inr \<lparr>stats_width = bin_x g, stats_height = bin_y g,
                stats_area = bin_x g * bin_y g,
                stats_efficiency =
                  1 - of_int (sum_list (map (\<lambda>F. rect_width F * rect_height F) (freerects g)))
                      / of_int (bin_x g * bin_y g),
                stats_items = items g\<rparr>)"

subsection \<open>Geometry of the invariants\<close>

text \<open>Two rectangles given by origin and extent overlap when their interiors meet.\<close>

definition overlap :: "int \<times> int \<times> int \<times> int \<Rightarrow> int \<times> int \<times> int \<times> int \<Rightarrow> bool" where
  "overlap a b =
     (case a of (ax, ay, aw, ah) \<Rightarrow> case b of (bx, by, bw, bh) \<Rightarrow>
        ax < bx + bw \<and> bx < ax + aw \<and> ay < by + bh \<and> by < ay + ah)"

definition rect_box :: "FreeRectangle \<Rightarrow> int \<times> int \<times> int \<times> int" where
  "rect_box r = (rect_x r, rect_y r, rect_width r, rect_height r)"

definition item_box :: "Item \<Rightarrow> int \<times> int \<times> int \<times> int" where
  "item_box it =
     (case CornerPoint it of
        Some (px, py) \<Rightarrow> (px, py, item_width it, item_height it)
      | None \<Rightarrow> (0, 0, 0, 0))"

fun pairwise_disjoint :: "(int \<times> int \<times> int \<times> int) list \<Rightarrow> bool" where
  "pairwise_disjoint [] = True"
| "pairwise_disjoint (b # bs) = (list_all (\<lambda>c. \<not> overlap b c) bs \<and> pairwise_disjoint bs)"

definition no_overlap :: "Guillotine \<Rightarrow> bool" where
  "no_overlap g =
     (pairwise_disjoint (map item_box (items g)) \<and> pairwise_disjoint (map rect_box (freerects g)))"

definition placed_area :: "Guillotine \<Rightarrow> int" where
  "placed_area g = sum_list (map (\<lambda>it. item_width it * item_height it) (items g))"

definition free_area :: "Guillotine \<Rightarrow> int" where
  "free_area g = sum_list (map area (freerects g))"

definition area_conserved :: "Guillotine \<Rightarrow> bool" where
  "area_conserved g = (placed_area g + free_area g = bin_x g * bin_y g)"

subsection \<open>Well-formed items and the outcomes of a placement\<close>

text \<open>An item as the data model has it, of positive width and height; an item that fits a
  free rectangle as it is oriented; and the two outcomes of \<^verbatim>\<open>first_fit\<close> and
  \<^verbatim>\<open>_generic_algo\<close>: failure with the engine untouched, or the placement of the item,
  as given or rotated, in a free rectangle of the engine that it fits.\<close>

definition item_ok :: "Item \<Rightarrow> bool" where
  "item_ok it = (0 < item_width it \<and> 0 < item_height it)"

definition fits :: "Item \<Rightarrow> FreeRectangle \<Rightarrow> bool" where
  "fits it r = (item_width it \<le> rect_width r \<and> item_height it \<le> rect_height r)"

definition outcome :: "Guillotine \<Rightarrow> Item \<Rightarrow> bool \<times> Item \<times> Guillotine \<Rightarrow> bool" where
  "outcome g it r =
     ((\<exists>it'. r = (False, it', g) \<and> (it' = it \<or> it' = rotate it))
      \<or> (\<exists>it' fr. r = place g it' fr \<and> fr \<in> set (freerects g) \<and> fits it' fr
            \<and> (it' = it \<or> it' = rotate it)))"

text \<open>A box inside another one, and the engine whose placed items and free rectangles are
  pairwise disjoint, also across the two lists.\<close>

definition inside :: "int \<times> int \<times> int \<times> int \<Rightarrow> int \<times> int \<times> int \<times> int \<Rightarrow> bool" where
  "inside a b =
     (case a of (ax, ay, aw, ah) \<Rightarrow> case b of (bx, by, bw, bh) \<Rightarrow>
        bx \<le> ax \<and> by \<le> ay \<and> ax + aw \<le> bx + bw \<and> ay + ah \<le> by + bh)"

definition engine_disjoint :: "Guillotine \<Rightarrow> bool" where
  "engine_disjoint g =
     (no_overlap g
      \<and> list_all (\<lambda>r. list_all (\<lambda>i. \<not> overlap (rect_box r) (item_box i)) (items g)) (freerects g))"

subsection \<open>The rotation choice as the specification words it\<close>

text \<open>Of the unrotated candidate \<open>A\<close> and the rotated candidate \<open>B\<close> the specification
  takes the one of smaller width and, when the widths tie, the unrotated one; the flag says
  whether the item is rotated.  This definition follows the specification, not the code.\<close>

definition claimed_choice :: "FreeRectangle \<Rightarrow> FreeRectangle \<Rightarrow> FreeRectangle \<times> bool" where
  "claimed_choice A B = (if rect_width B < rect_width A then (B, True) else (A, False))"

subsection \<open>Mergeable rectangles as the specification words them\<close>

text \<open>Two free rectangles as the specification lets them merge: same x and width with
  one directly above the other, or same y and height with one directly to the right of the
  other.  This definition follows the specification, not the code.\<close>

definition spec_mergeable :: "FreeRectangle \<Rightarrow> FreeRectangle \<Rightarrow> bool" where
  "spec_mergeable a b =
     ((rect_x a = rect_x b \<and> rect_width a = rect_width b
         \<and> (rect_y b = rect_y a + rect_height a \<or> rect_y a = rect_y b + rect_height b))
      \<or> (rect_y a = rect_y b \<and> rect_height a = rect_height b
         \<and> (rect_x b = rect_x a + rect_width a \<or> rect_x a = rect_x b + rect_width b)))"

subsection \<open>Engine states of the examples\<close>

text \<open>\<^verbatim>\<open>Guillotine(6, 3, split_heuristic='SplitShorterAxis')\<close> after a first-fit insert
  of an item of width 3 and height 1.\<close>

definition tie_engine :: Guillotine where
  "tie_engine =
     \<lparr>bin_x = 6, bin_y = 3, rMerge = False, split_heuristic = ''SplitShorterAxis'',
      freerects = [FreeRectangle 3 3 3 0, FreeRectangle 3 2 0 1],
      items = [(new_item 3 1)\<lparr>CornerPoint := Some (0, 0)\<rparr>], rotation = True\<rparr>"

text \<open>\<^verbatim>\<open>Guillotine(4, 4, rectangle_merge=True)\<close> after first-fit inserts of items
  (1, 1), (2, 2), (1, 1).\<close>

definition area_engine :: Guillotine where
  "area_engine =
     \<lparr>bin_x = 4, bin_y = 4, rMerge = True, split_heuristic = ''default'',
      freerects = [FreeRectangle 2 1 2 0, FreeRectangle 2 3 2 1],
      items = [(new_item 1 1)\<lparr>CornerPoint := Some (0, 0)\<rparr>,
               (new_item 2 2)\<lparr>CornerPoint := Some (0, 1)\<rparr>,
               (new_item 1 1)\<lparr>CornerPoint := Some (1, 0)\<rparr>],
      rotation = True\<rparr>"

text \<open>\<^verbatim>\<open>Guillotine(4, 4, rectangle_merge=True)\<close> after first-fit inserts of items
  (2, 1), (3, 1), (2, 2), (1, 2).\<close>

definition overlap_engine :: Guillotine where
  "overlap_engine =
     \<lparr>bin_x = 4, bin_y = 4, rMerge = True, split_heuristic = ''default'',
      freerects = [FreeRectangle 1 2 3 0, FreeRectangle 2 2 2 2],
      items = [(new_item 2 1)\<lparr>CornerPoint := Some (0, 0)\<rparr>,
               (new_item 3 1)\<lparr>CornerPoint := Some (0, 1)\<rparr>,
               (new_item 2 2)\<lparr>CornerPoint := Some (0, 2)\<rparr>,
               (new_item 1 2)\<lparr>CornerPoint := Some (2, 0)\<rparr>],
      rotation = True\<rparr>"

text \<open>\<^verbatim>\<open>Guillotine(4, 4, rectangle_merge=True)\<close> after first-fit inserts of items
  (1, 2), (1, 1), and the same engine once \<^verbatim>\<open>first_fit\<close> has placed a third item
  (2, 1), before the merge pass of that insert.\<close>

definition premerge_engine :: Guillotine where
  "premerge_engine =
     \<lparr>bin_x = 4, bin_y = 4, rMerge = True, split_heuristic = ''default'',
      freerects = [FreeRectangle 4 2 0 2, FreeRectangle 2 1 2 0, FreeRectangle 3 1 1 1],
      items = [(new_item 1 2)\<lparr>CornerPoint := Some (0, 0)\<rparr>,
               (new_item 1 1)\<lparr>CornerPoint := Some (1, 0)\<rparr>],
      rotation = True\<rparr>"

definition placed_engine :: Guillotine where
  "placed_engine =
     premerge_engine
       \<lparr>freerects := [FreeRectangle 2 1 2 0, FreeRectangle 3 1 1 1,
                      FreeRectangle 2 1 2 2, FreeRectangle 4 1 0 3],
        items := items premerge_engine @ [(new_item 2 1)\<lparr>CornerPoint := Some (0, 2)\<rparr>]\<rparr>"

text \<open>\<^verbatim>\<open>Guillotine(6, 4, rotation=False, rectangle_merge=True,
  split_heuristic='SplitShorterAxis')\<close> after \<^verbatim>\<open>worst_area_fit\<close> inserts of items
  (2, 1), (1, 2), (2, 1), (2, 1), (1, 1), and the same engine once \<^verbatim>\<open>_generic_algo\<close>
  has placed a sixth item (1, 2), before the merge pass of that insert.\<close>

definition raise_engine :: Guillotine where
  "raise_engine =
     \<lparr>bin_x = 6, bin_y = 4, rMerge = True, split_heuristic = ''SplitShorterAxis'',
      freerects = [FreeRectangle 2 2 4 2, FreeRectangle 2 1 2 3, FreeRectangle 1 1 1 1,
                   FreeRectangle 2 2 0 2, FreeRectangle 3 1 3 1],
      items = [(new_item 2 1)\<lparr>CornerPoint := Some (0, 0)\<rparr>,
               (new_item 1 2)\<lparr>CornerPoint := Some (2, 0)\<rparr>,
               (new_item 2 1)\<lparr>CornerPoint := Some (2, 2)\<rparr>,
               (new_item 2 1)\<lparr>CornerPoint := Some (3, 0)\<rparr>,
               (new_item 1 1)\<lparr>CornerPoint := Some (0, 1)\<rparr>],
      rotation = False\<rparr>"

definition raise_placed :: Guillotine where
  "raise_placed =
     raise_engine
       \<lparr>freerects := [FreeRectangle 2 2 4 2, FreeRectangle 2 1 2 3, FreeRectangle 1 1 1 1,
                      FreeRectangle 3 1 3 1, FreeRectangle 1 2 1 2],
        items := items raise_engine @ [(new_item 1 2)\<lparr>CornerPoint := Some (0, 2)\<rparr>]\<rparr>"

section \<open>Properties\<close>

subsection \<open>Placements\<close>

lemma foldl_choice_mem:
  "foldl (\<lambda>a b. if P a b then a else b) r rs \<in> insert r (set rs)"
  by (induction rs arbitrary: r) auto

lemma rectangle_reduce_mem:
  assumes "rectangle_reduce fitted op f = Some r"
  shows "r \<in> set fitted"
proof (cases fitted)
  case Nil
  with assms show ?thesis by (simp add: rectangle_reduce_def)
next
  case (Cons a as)
  with assms foldl_choice_mem [of "\<lambda>a b. op (field_of f a) (field_of f b)" a as]
  show ?thesis by (auto simp: rectangle_reduce_def)
qed

lemma fitted_rects_unrotated:
  "r \<in> set (fitted_rects g it False) \<Longrightarrow> r \<in> set (freerects g) \<and> fits it r"
  by (simp add: fitted_rects_def fits_def)

lemma fitted_rects_rotated:
  "r \<in> set (fitted_rects g it True) \<Longrightarrow> r \<in> set (freerects g) \<and> fits (rotate it) r"
  by (simp add: fitted_rects_def fits_def rotate_def)

lemma rotate_ok: "item_ok (rotate it) = item_ok it"
  by (auto simp: item_ok_def rotate_def)


lemma outcome_fail: "outcome g it (False, it, g)" "outcome g it (False, rotate it, g)"
  by (simp_all add: outcome_def)

lemma outcome_place:
  "fr \<in> set (freerects g) \<Longrightarrow> fits it fr \<Longrightarrow> outcome g it (place g it fr)"
  "fr \<in> set (freerects g) \<Longrightarrow> fits (rotate it) fr \<Longrightarrow> outcome g it (place g (rotate it) fr)"
  unfolding outcome_def by blast+

text \<open>Either call fails and leaves the engine alone, or it places the item, as given or
  rotated, into a free rectangle of the engine that the placed item fits.\<close>

lemma first_fit_outcome: "outcome g it (first_fit g it)"
proof (cases "fitted_rects g it False")
  case (Cons r rs)
  then have "r \<in> set (fitted_rects g it False)" by simp
  from fitted_rects_unrotated [OF this] Cons show ?thesis
    by (simp add: first_fit_def outcome_place)
next
  case Nil
  show ?thesis
  proof (cases "rotation g")
    case False
    with Nil show ?thesis by (simp add: first_fit_def outcome_fail)
  next
    case True
    show ?thesis
    proof (cases "fitted_rects g it True")
      case Nil' : Nil
      with Nil True show ?thesis by (simp add: first_fit_def outcome_fail)
    next
      case (Cons r rs)
      then have "r \<in> set (fitted_rects g it True)" by simp
      from fitted_rects_rotated [OF this] Nil True Cons show ?thesis
        by (simp add: first_fit_def outcome_place)
    qed
  qed
qed

lemma generic_algo_outcome: "outcome g it (generic_algo g it f op)"
proof -
  let ?A = "rectangle_reduce (fitted_rects g it False) op f"
  let ?B = "rectangle_reduce (fitted_rects g it True) op f"
  have A: "r \<in> set (freerects g) \<and> fits it r" if "?A = Some r" for r
    using rectangle_reduce_mem [OF that] by (rule fitted_rects_unrotated)
  have B: "r \<in> set (freerects g) \<and> fits (rotate it) r" if "?B = Some r" for r
    using rectangle_reduce_mem [OF that] by (rule fitted_rects_rotated)
  show ?thesis
  proof (cases "rotation g")
    case False
    then show ?thesis
      using A by (cases ?A) (simp_all add: generic_algo_def outcome_fail outcome_place)
  next
    case True
    show ?thesis
    proof (cases ?A)
      case None
      with True B show ?thesis
        by (cases ?B) (simp_all add: generic_algo_def outcome_fail outcome_place)
    next
      case (Some a)
      show ?thesis
      proof (cases ?B)
        case None
        with True Some A [OF Some] show ?thesis
          by (simp add: generic_algo_def outcome_place)
      next
        case Some' : (Some b)
        show ?thesis
        proof (cases "rect_min a b = b")
          case True' : True
          with True Some Some' B [OF Some'] show ?thesis
            by (simp add: generic_algo_def Let_def outcome_place)
        next
          case False
          then have "rect_min a b = a" by (simp add: rect_min_def split: if_splits)
          with False True Some Some' A [OF Some] show ?thesis
            by (simp add: generic_algo_def Let_def outcome_place)
        qed
      qed
    qed
  qed
qed

lemma after_placement_without_merge:
  assumes "\<not> rMerge g" and "outcome g it r"
  shows "after_placement r = Inr r"
proof -
  have "after_placement (place g it' fr) = Inr (place g it' fr)" for it' fr
    using assms(1) by (simp add: after_placement_def place_def Let_def)
  moreover have "after_placement (False, it', g) = Inr (False, it', g)" for it'
    by (simp add: after_placement_def)
  ultimately show ?thesis
    using assms(2) unfolding outcome_def by auto
qed

lemma insert_item_without_merge:
  assumes "\<not> rMerge g"
  shows "\<exists>r. insert_item g it h = Inr r \<and> outcome g it r"
proof -
  have ff: "after_placement (first_fit g it) = Inr (first_fit g it)"
    by (rule after_placement_without_merge [OF assms first_fit_outcome])
  have ga: "after_placement (generic_algo g it f op) = Inr (generic_algo g it f op)" for f op
    by (rule after_placement_without_merge [OF assms generic_algo_outcome])
  have "insert_item g it h \<in> Inr ` {r. outcome g it r}"
    unfolding insert_item_def
    by (simp add: ff ga first_fit_outcome generic_algo_outcome outcome_fail inj_image_mem_iff)
  then show ?thesis
    by blast
qed

lemma split_along_axis_area:
  assumes "fits it r" and "item_ok it"
  shows "sum_list (map area (split_along_axis r it split)) + item_width it * item_height it = area r"
  using assms
  by (cases split) (auto simp: split_along_axis_def fits_def item_ok_def area_def Let_def algebra_simps)

lemma place_area:
  assumes "r \<in> set (freerects g)" and "fits it r" and "item_ok it" and "area_conserved g"
  shows "area_conserved (snd (snd (place g it r)))"
proof -
  let ?it = "it\<lparr>CornerPoint := Some (rect_x r, rect_y r)\<rparr>"
  have fit: "fits ?it r" and ok: "item_ok ?it"
    using assms by (simp_all add: fits_def item_ok_def)
  have "sum_list (map area (freerects g)) = area r + sum_list (map area (remove1 r (freerects g)))"
    using assms(1) by (rule sum_list_map_remove1)
  moreover have "sum_list (map area (split_free_rect g ?it r)) + item_width it * item_height it = area r"
    using split_along_axis_area [OF fit ok] by (simp add: split_free_rect_def)
  ultimately show ?thesis
    using assms(4)
    by (simp add: place_def area_conserved_def placed_area_def free_area_def Let_def)
qed

lemma outcome_area:
  assumes "outcome g it r" and "item_ok it" and "area_conserved g"
  shows "area_conserved (snd (snd r))"
proof -
  from assms(1) consider
    (fail) it' where "r = (False, it', g)"
  | (placed) it' fr where "r = place g it' fr" "fr \<in> set (freerects g)" "fits it' fr"
        "it' = it \<or> it' = rotate it"
    unfolding outcome_def by blast
  then show ?thesis
  proof cases
    case fail
    with assms(3) show ?thesis by simp
  next
    case placed
    from placed(4) assms(2) have "item_ok it'"
      by (auto simp: rotate_ok)
    from place_area [OF placed(2) placed(3) this assms(3)] placed(1) show ?thesis
      by simp
  qed
qed

lemma outcome_flags:
  assumes "outcome g it r"
  shows "rMerge (snd (snd r)) = rMerge g"
proof -
  have "rMerge (snd (snd (place g it' fr))) = rMerge g" for it' fr
    by (simp add: place_def Let_def)
  with assms show ?thesis
    unfolding outcome_def by auto
qed

lemma init_area: "area_conserved (init bx by rot rm sh)"
  by (simp add: init_def area_conserved_def placed_area_def free_area_def area_def)

subsection \<open>Inserts without the merge pass\<close>

lemma pairwise_disjoint_sorted_wrt:
  "pairwise_disjoint bs = sorted_wrt (\<lambda>b c. \<not> overlap b c) bs"
  by (induction bs) (auto simp: list_all_iff)

lemma overlap_sym: "overlap a b = overlap b a"
  by (auto simp: overlap_def split: prod.splits)

lemma overlap_inside: "inside a b \<Longrightarrow> overlap a c \<Longrightarrow> overlap b c"
  by (auto simp: overlap_def inside_def split: prod.splits)

lemma pairwise_disjoint_append:
  "pairwise_disjoint (as @ bs) =
     (pairwise_disjoint as \<and> pairwise_disjoint bs \<and> (\<forall>a \<in> set as. \<forall>b \<in> set bs. \<not> overlap a b))"
  by (auto simp: pairwise_disjoint_sorted_wrt sorted_wrt_append)

lemma pairwise_disjoint_remove1:
  "pairwise_disjoint (map rect_box xs) \<Longrightarrow> pairwise_disjoint (map rect_box (remove1 r xs))"
proof (induction xs)
  case Nil
  then show ?case by simp
next
  case (Cons x xs)
  have "set (remove1 r xs) \<subseteq> set xs" by (rule set_remove1_subset)
  with Cons show ?case by (auto simp: list_all_iff)
qed

lemma others_disjoint:
  "pairwise_disjoint (map rect_box xs) \<Longrightarrow> r \<in> set xs
   \<Longrightarrow> \<forall>s \<in> set (remove1 r xs). \<not> overlap (rect_box s) (rect_box r)"
proof (induction xs)
  case Nil
  then show ?case by simp
next
  case (Cons x xs)
  show ?case
  proof (cases "x = r")
    case True
    with Cons.prems show ?thesis by (auto simp: list_all_iff overlap_sym [of _ "rect_box r"])
  next
    case False
    with Cons show ?thesis by (auto simp: list_all_iff)
  qed
qed

lemma split_pieces:
  assumes "fits it r" and "item_ok it" and "CornerPoint it = Some (rect_x r, rect_y r)"
  shows "inside (item_box it) (rect_box r)"
    and "\<forall>p \<in> set (split_along_axis r it split). inside (rect_box p) (rect_box r)"
    and "\<forall>p \<in> set (split_along_axis r it split). \<not> overlap (rect_box p) (item_box it)"
    and "pairwise_disjoint (map rect_box (split_along_axis r it split))"
  using assms
  by (auto simp: split_along_axis_def fits_def item_ok_def inside_def overlap_def
        rect_box_def item_box_def Let_def)

lemma place_disjoint:
  assumes r: "r \<in> set (freerects g)" and fit: "fits it r" and ok: "item_ok it"
    and inv: "engine_disjoint g"
  shows "engine_disjoint (snd (snd (place g it r)))"
proof -
  let ?it = "it\<lparr>CornerPoint := Some (rect_x r, rect_y r)\<rparr>"
  let ?sp = "split_free_rect g ?it r"
  let ?rest = "remove1 r (freerects g)"
  have fit': "fits ?it r" and ok': "item_ok ?it" and cp: "CornerPoint ?it = Some (rect_x r, rect_y r)"
    using fit ok by (simp_all add: fits_def item_ok_def)
  have sp1: "inside (item_box ?it) (rect_box r)"
    by (rule split_pieces(1) [OF fit' ok' cp])
  have sp2: "\<forall>p \<in> set ?sp. inside (rect_box p) (rect_box r)"
    unfolding split_free_rect_def by (rule split_pieces(2) [OF fit' ok' cp])
  have sp3: "\<forall>p \<in> set ?sp. \<not> overlap (rect_box p) (item_box ?it)"
    unfolding split_free_rect_def by (rule split_pieces(3) [OF fit' ok' cp])
  have sp4: "pairwise_disjoint (map rect_box ?sp)"
    unfolding split_free_rect_def by (rule split_pieces(4) [OF fit' ok' cp])
  from inv have fr: "pairwise_disjoint (map rect_box (freerects g))"
    and its: "pairwise_disjoint (map item_box (items g))"
    and fi: "\<forall>s \<in> set (freerects g). \<forall>i \<in> set (items g). \<not> overlap (rect_box s) (item_box i)"
    by (auto simp: engine_disjoint_def no_overlap_def list_all_iff)
  have rest_sub: "set ?rest \<subseteq> set (freerects g)" by (rule set_remove1_subset)
  have rest_r: "\<forall>s \<in> set ?rest. \<not> overlap (rect_box s) (rect_box r)"
    by (rule others_disjoint [OF fr r])
  have item_old: "\<forall>i \<in> set (items g). \<not> overlap (item_box i) (item_box ?it)"
    using fi r sp1 overlap_inside [of "item_box ?it" "rect_box r"]
    by (metis overlap_sym)
  have piece_old: "\<forall>p \<in> set ?sp. \<forall>i \<in> set (items g). \<not> overlap (rect_box p) (item_box i)"
    using fi r sp2 overlap_inside by blast
  have rest_piece: "\<forall>s \<in> set ?rest. \<forall>p \<in> set ?sp. \<not> overlap (rect_box s) (rect_box p)"
    using rest_r sp2 overlap_inside by (metis overlap_sym)
  have rest_item: "\<forall>s \<in> set ?rest. \<not> overlap (rect_box s) (item_box ?it)"
    using rest_r sp1 overlap_inside by (metis overlap_sym)
  have "pairwise_disjoint (map item_box (items g @ [?it]))"
    using its item_old by (simp add: pairwise_disjoint_append)
  moreover have "pairwise_disjoint (map rect_box (?rest @ ?sp))"
    using pairwise_disjoint_remove1 [OF fr, of r] sp4 rest_piece
    by (simp add: pairwise_disjoint_append)
  moreover have "\<forall>s \<in> set (?rest @ ?sp). \<forall>i \<in> set (items g @ [?it]).
      \<not> overlap (rect_box s) (item_box i)"
    using fi rest_sub rest_item piece_old sp3 by auto
  ultimately show ?thesis
    by (simp add: engine_disjoint_def no_overlap_def place_def Let_def list_all_iff)
qed

lemma outcome_disjoint:
  assumes "outcome g it r" and "item_ok it" and "engine_disjoint g"
  shows "engine_disjoint (snd (snd r))"
proof -
  from assms(1) consider
    (fail) it' where "r = (False, it', g)"
  | (placed) it' fr where "r = place g it' fr" "fr \<in> set (freerects g)" "fits it' fr"
        "it' = it \<or> it' = rotate it"
    unfolding outcome_def by blast
  then show ?thesis
  proof cases
    case fail
    with assms(3) show ?thesis by simp
  next
    case placed
    from placed(4) assms(2) have "item_ok it'"
      by (auto simp: rotate_ok)
    from place_disjoint [OF placed(2) placed(3) this assms(3)] placed(1) show ?thesis
      by simp
  qed
qed

lemma init_disjoint: "engine_disjoint (init bx by rot rm sh)"
  by (simp add: init_def engine_disjoint_def no_overlap_def)

lemma insert_seq_invariants:
  assumes "\<not> rMerge g" and "area_conserved g" and "engine_disjoint g"
    and "\<forall>c \<in> set calls. item_ok (fst c)"
  shows "\<exists>ress g'. insert_seq g calls = Inr (ress, g') \<and> area_conserved g' \<and> engine_disjoint g'"
  using assms
proof (induction calls arbitrary: g)
  case Nil
  then show ?case by simp
next
  case (Cons c calls)
  obtain it h where c: "c = (it, h)" by (cases c)
  from insert_item_without_merge [OF Cons.prems(1), of it h]
  obtain r where r: "insert_item g it h = Inr r" and out: "outcome g it r" by blast
  obtain res it' g1 where r3: "r = (res, it', g1)" by (cases r)
  from Cons.prems c have ok: "item_ok it" by simp
  have "\<not> rMerge g1" and "area_conserved g1" and "engine_disjoint g1"
    using outcome_flags [OF out] outcome_area [OF out ok Cons.prems(2)]
      outcome_disjoint [OF out ok Cons.prems(3)] Cons.prems(1) r3
    by simp_all
  from Cons.IH [OF this] Cons.prems(4)
  obtain ress g' where "insert_seq g1 calls = Inr (ress, g')" and "area_conserved g'"
    and "engine_disjoint g'"
    by auto
  with r r3 c show ?case
    by (simp add: bind_err_def)
qed

text \<open>With the merge pass disabled no insert raises, and after every sequence of inserts
  of items of positive width and height the areas of the placed items and of the free
  rectangles add up to the bin area, no two placed items overlap and no two free
  rectangles overlap.\<close>

lemma invariants_without_merge:
  assumes "\<forall>c \<in> set calls. item_ok (fst c)"
  shows "\<exists>ress g. insert_seq (init bx by rot False sh) calls = Inr (ress, g)
           \<and> area_conserved g \<and> no_overlap g"
proof -
  have "\<not> rMerge (init bx by rot False sh)"
    by (simp add: init_def)
  from insert_seq_invariants [OF this init_area init_disjoint assms]
  show ?thesis
    by (auto simp: engine_disjoint_def)
qed

subsection \<open>Failed inserts and the engine\<close>

lemma first_fit_failure:
  assumes "first_fit g it = (False, it', g')"
  shows "it' = it \<and> g' = g"
proof (cases "fitted_rects g it False")
  case (Cons r rs)
  with assms show ?thesis by (simp add: first_fit_def place_def Let_def)
next
  case Nil
  show ?thesis
  proof (cases "rotation g \<and> fitted_rects g it True \<noteq> []")
    case False
    with Nil assms show ?thesis by (auto simp: first_fit_def Let_def split: if_splits)
  next
    case True
    then obtain r rs where "fitted_rects g it True = r # rs"
      by (cases "fitted_rects g it True") auto
    with Nil True assms show ?thesis by (simp add: first_fit_def place_def Let_def)
  qed
qed

text \<open>An insert that returns failure leaves the engine as it was, with any heuristic and
  with the merge pass enabled or not.\<close>

lemma failed_insert_keeps_engine:
  assumes "insert_item g it h = Inr (False, it', g')"
  shows "g' = g"
proof -
  have ap: "g1 = g" if "after_placement r = Inr (False, it', g1)" and "outcome g it r" for r g1
    using that
    by (auto simp: outcome_def after_placement_def place_def Let_def bind_err_def
          split: if_splits sum.splits)
  from assms ap [OF _ first_fit_outcome] ap [OF _ generic_algo_outcome] show ?thesis
    by (auto simp: insert_item_def split: if_splits)
qed

text \<open>On a bin of non-zero area \<^verbatim>\<open>bin_stats\<close> returns the report.\<close>

lemma bin_stats_nonzero:
  assumes "bin_x g * bin_y g \<noteq> 0"
  shows "\<exists>s. bin_stats g = Inr s \<and> stats_width s = bin_x g \<and> stats_height s = bin_y g
           \<and> stats_area s = bin_x g * bin_y g
           \<and> stats_efficiency s = 1 - of_int (free_area g) / of_int (bin_x g * bin_y g)
           \<and> stats_items s = items g"
  using assms by (simp add: bin_stats_def free_area_def area_def [abs_def])

subsection \<open>Split axis\<close>

text \<open>
  C6.  For every free rectangle \<open>F\<close> and item \<open>I\<close> placed in it, the split axis (true is
  horizontal) is: always true under the default policy; leftover width at most leftover
  height under \<^verbatim>\<open>SplitShorterLeftoverAxis\<close>; leftover width greater than leftover
  height under \<^verbatim>\<open>SplitLongerLeftoverAxis\<close>; item width times leftover height greater
  than leftover width times item height under \<^verbatim>\<open>SplitMinimizeArea\<close>; the negation of
  that under \<^verbatim>\<open>SplitMaximizeArea\<close>; width of \<open>F\<close> at most its height under
  \<^verbatim>\<open>SplitShorterAxis\<close>; width of \<open>F\<close> greater than its height under
  \<^verbatim>\<open>SplitLongerAxis\<close>.  The split of the engine is the split along that axis.
\<close>

theorem split_axis_policy:
  "split_axis ''default'' I F = True
   \<and> split_axis ''SplitShorterLeftoverAxis'' I F
       = (rect_width F - item_width I \<le> rect_height F - item_height I)
   \<and> split_axis ''SplitLongerLeftoverAxis'' I F
       = (rect_width F - item_width I > rect_height F - item_height I)
   \<and> split_axis ''SplitMinimizeArea'' I F
       = (item_width I * (rect_height F - item_height I)
            > (rect_width F - item_width I) * item_height I)
   \<and> split_axis ''SplitMaximizeArea'' I F = (\<not> split_axis ''SplitMinimizeArea'' I F)
   \<and> split_axis ''SplitShorterAxis'' I F = (rect_width F \<le> rect_height F)
   \<and> split_axis ''SplitLongerAxis'' I F = (rect_width F > rect_height F)
   \<and> split_free_rect g I F = split_along_axis F I (split_axis (split_heuristic g) I F)"
  by (simp add: split_axis_def split_free_rect_def Let_def not_less)

subsection \<open>The first-fit scenario\<close>

lemma merge_loop_bin_8_4:
  "merge_loop 0 [FreeRectangle 5 2 3 0, FreeRectangle 8 2 0 2]
     = Inr [FreeRectangle 5 2 3 0, FreeRectangle 8 2 0 2]"
  by (simp add: merge_loop.simps merge_step_def bind_err_def)

text \<open>
  C7.  In a fresh bin of width 8 and height 4 with the default split policy, whatever the
  rotation and merge flags, inserting an item of width 3 and height 2 with
  \<^verbatim>\<open>first_fit\<close> succeeds, places the item at (0, 0) unrotated, and leaves exactly the
  free rectangles (5, 2, 3, 0) and (8, 2, 0, 2).
\<close>

theorem first_fit_scenario:
  "insert_item (init 8 4 rot rm ''default'') (new_item 3 2) ''first_fit''
     = Inr (True,
            (new_item 3 2)\<lparr>CornerPoint := Some (0, 0)\<rparr>,
            (init 8 4 rot rm ''default'')
              \<lparr>freerects := [FreeRectangle 5 2 3 0, FreeRectangle 8 2 0 2],
               items := [(new_item 3 2)\<lparr>CornerPoint := Some (0, 0)\<rparr>]\<rparr>)"
  by (cases rm)
     (simp_all add: insert_item_def after_placement_def first_fit_def fitted_rects_def
        place_def split_free_rect_def split_axis_def split_along_axis_def init_def Let_def
        new_item_def rectangle_merge_def bind_err_def merge_loop_bin_8_4)

subsection \<open>Statistics of a bin with a zero dimension\<close>

text \<open>
  C9.  \<^verbatim>\<open>bin_stats\<close> on an engine built with bin width 0 and bin height 4 does not
  return a report: the division by the bin area raises \<^verbatim>\<open>ZeroDivisionError\<close>.
\<close>

theorem bin_stats_zero_bin:
  "bin_stats (init 0 4 rot rm sh) = Inl ZeroDivisionError"
  by (simp add: bin_stats_def init_def)

subsection \<open>A failed insert and the item\<close>

text \<open>
  C4.  In a fresh bin of width 8 and height 4 with rotation enabled, inserting an item of
  width 9 and height 5 with \<^verbatim>\<open>best_area_fit\<close> fails and leaves the engine as it was,
  but the item comes back with width 5, height 9 and its rotation flag set.
\<close>

theorem failed_insert_rotates_item:
  "insert_item (init 8 4 True False ''default'') (new_item 9 5) ''best_area_fit''
     = Inr (False,
            \<lparr>item_width = 5, item_height = 9, CornerPoint = None, rotated = True\<rparr>,
            init 8 4 True False ''default'')"
  by (simp add: insert_item_def after_placement_def generic_algo_def fitted_rects_def
        rectangle_reduce_def init_def new_item_def rotate_def Let_def)

subsection \<open>A bin with a zero dimension\<close>

lemma insert_item_no_freerects:
  assumes "freerects g = []"
  shows "\<exists>it'. insert_item g it h = Inr (False, it', g)"
  using assms
  by (simp add: insert_item_def after_placement_def first_fit_def generic_algo_def
        fitted_rects_def rectangle_reduce_def Let_def)

lemma insert_seq_no_freerects:
  assumes "freerects g = []"
  shows "insert_seq g calls = Inr (replicate (length calls) False, g)"
proof (induction calls)
  case Nil
  show ?case by simp
next
  case (Cons c calls)
  obtain it h where c: "c = (it, h)" by (cases c)
  from insert_item_no_freerects [OF assms] obtain it'
    where "insert_item g it h = Inr (False, it', g)" by blast
  with Cons c show ?case by (simp add: bind_err_def)
qed

text \<open>
  C8.  An engine built with bin width zero or bin height zero has an empty free list, and
  every sequence of insert calls on it, whatever the items and heuristics, returns failure
  at every call and leaves the engine, hence the empty free list, as it was.
\<close>

theorem zero_bin_rejects_every_insert:
  assumes "bx = 0 \<or> by = 0"
  shows "freerects (init bx by rot rm sh) = []
         \<and> insert_seq (init bx by rot rm sh) calls
             = Inr (replicate (length calls) False, init bx by rot rm sh)"
proof -
  from assms have "freerects (init bx by rot rm sh) = []"
    by (auto simp: init_def)
  then show ?thesis
    by (simp add: insert_seq_no_freerects)
qed

theorem zero_bin_rejects_every_insert_witness:
  "((0::int) = 0 \<or> (4::int) = 0)
   \<and> freerects (init 0 4 True True ''default'') = []
   \<and> insert_seq (init 0 4 True True ''default'')
        [(new_item 1 1, ''first_fit''), (new_item 2 3, ''best_area_fit''), (new_item 1 2, ''unknown'')]
       = Inr ([False, False, False], init 0 4 True True ''default'')"
  using zero_bin_rejects_every_insert [of 0 4 True True "''default''"
      "[(new_item 1 1, ''first_fit''), (new_item 2 3, ''best_area_fit''), (new_item 1 2, ''unknown'')]"]
  by simp

subsection \<open>The choice between the unrotated and the rotated candidate\<close>

text \<open>
  C3, as amended.  With rotation enabled, when the unrotated orientation has the best
  candidate \<open>A\<close> and the rotated orientation has the best candidate \<open>B\<close> under the
  heuristic's metric, and the two are different rectangles, the engine selects the smaller
  of the two in the lexicographic order on (width, height, x, y), so the one of smaller
  width when the widths differ, and the item is rotated before placement exactly when the
  rotated candidate is the selected one.
\<close>

theorem rotation_choice_lexicographic:
  assumes "rotation g"
    and "rectangle_reduce (fitted_rects g it False) op f = Some A"
    and "rectangle_reduce (fitted_rects g it True) op f = Some B"
    and "A \<noteq> B"
  shows "generic_algo g it f op
           = (if rect_less B A then place g (rotate it) B else place g it A)"
  using assms by (simp add: generic_algo_def rect_min_def Let_def)

lemma tie_engine_reached:
  "insert_item (init 6 3 True False ''SplitShorterAxis'') (new_item 3 1) ''first_fit''
     = Inr (True, (new_item 3 1)\<lparr>CornerPoint := Some (0, 0)\<rparr>, tie_engine)"
  by (simp add: insert_item_def after_placement_def first_fit_def fitted_rects_def
        place_def split_free_rect_def split_axis_def split_along_axis_def init_def Let_def
        new_item_def tie_engine_def)

text \<open>
  C3 as stated fails.  In the bin of width 6 and height 3 after one insert, the item of
  width 2 and height 3 has the unrotated candidate (3, 3, 3, 0) and the rotated candidate
  (3, 2, 0, 1) under \<^verbatim>\<open>best_width_fit\<close>.  Their widths tie, so the specification
  selects the unrotated one and leaves the item as it is; the engine selects the rotated
  one and rotates the item.
\<close>

theorem rotation_choice_width_tie_counterexample:
  "insert_item (init 6 3 True False ''SplitShorterAxis'') (new_item 3 1) ''first_fit''
     = Inr (True, (new_item 3 1)\<lparr>CornerPoint := Some (0, 0)\<rparr>, tie_engine)
   \<and> rectangle_reduce (fitted_rects tie_engine (new_item 2 3) False) (<) Width
       = Some (FreeRectangle 3 3 3 0)
   \<and> rectangle_reduce (fitted_rects tie_engine (new_item 2 3) True) (<) Width
       = Some (FreeRectangle 3 2 0 1)
   \<and> claimed_choice (FreeRectangle 3 3 3 0) (FreeRectangle 3 2 0 1)
       = (FreeRectangle 3 3 3 0, False)
   \<and> generic_algo tie_engine (new_item 2 3) Width (<)
       = place tie_engine (rotate (new_item 2 3)) (FreeRectangle 3 2 0 1)
   \<and> generic_algo tie_engine (new_item 2 3) Width (<)
       \<noteq> place tie_engine (new_item 2 3) (FreeRectangle 3 3 3 0)"
  by (simp add: tie_engine_reached)
     (simp add: generic_algo_def fitted_rects_def rectangle_reduce_def rect_min_def
        rect_less_def claimed_choice_def place_def tie_engine_def new_item_def rotate_def
        Let_def)

theorem rotation_choice_lexicographic_witness:
  "rotation tie_engine
   \<and> rectangle_reduce (fitted_rects tie_engine (new_item 2 3) False) (<) Width
       = Some (FreeRectangle 3 3 3 0)
   \<and> rectangle_reduce (fitted_rects tie_engine (new_item 2 3) True) (<) Width
       = Some (FreeRectangle 3 2 0 1)
   \<and> FreeRectangle 3 3 3 0 \<noteq> FreeRectangle 3 2 0 1
   \<and> generic_algo tie_engine (new_item 2 3) Width (<)
       = place tie_engine (rotate (new_item 2 3)) (FreeRectangle 3 2 0 1)"
proof -
  have r: "rotation tie_engine"
    by (simp add: tie_engine_def)
  have a: "rectangle_reduce (fitted_rects tie_engine (new_item 2 3) False) (<) Width
             = Some (FreeRectangle 3 3 3 0)"
    by (simp add: fitted_rects_def rectangle_reduce_def tie_engine_def new_item_def)
  have b: "rectangle_reduce (fitted_rects tie_engine (new_item 2 3) True) (<) Width
             = Some (FreeRectangle 3 2 0 1)"
    by (simp add: fitted_rects_def rectangle_reduce_def tie_engine_def new_item_def)
  have n: "FreeRectangle 3 3 3 0 \<noteq> FreeRectangle 3 2 0 1"
    by simp
  from rotation_choice_lexicographic [OF r a b n] r a b n show ?thesis
    by (simp add: rect_less_def)
qed

subsection \<open>The merge pass\<close>

text \<open>
  C2.  In a fresh bin of width 4 and height 4 with merge enabled, three first-fit inserts
  of items (1, 1), (2, 2), (1, 1) all succeed; afterwards the placed items have total area
  6 and the free rectangles total area 8, which is not the bin area 16: the merge pass of
  the third insert has lost area.
\<close>

theorem merge_loses_area:
  "insert_seq (init 4 4 True True ''default'')
     [(new_item 1 1, ''first_fit''), (new_item 2 2, ''first_fit''), (new_item 1 1, ''first_fit'')]
     = Inr ([True, True, True], area_engine)
   \<and> placed_area area_engine = 6
   \<and> free_area area_engine = 8
   \<and> bin_x area_engine * bin_y area_engine = 16
   \<and> \<not> area_conserved area_engine"
  by code_simp

text \<open>
  C1.  In a fresh bin of width 4 and height 4 with merge enabled, four first-fit inserts
  of items (2, 1), (3, 1), (2, 2), (1, 2) all succeed; afterwards the second item, at
  (0, 1) with extent 3 by 1, and the fourth item, at (2, 0) with extent 1 by 2, overlap.
\<close>

theorem merge_makes_items_overlap:
  "insert_seq (init 4 4 True True ''default'')
     [(new_item 2 1, ''first_fit''), (new_item 3 1, ''first_fit''),
      (new_item 2 2, ''first_fit''), (new_item 1 2, ''first_fit'')]
     = Inr ([True, True, True, True], overlap_engine)
   \<and> item_box (items overlap_engine ! 1) = (0, 1, 3, 1)
   \<and> item_box (items overlap_engine ! 3) = (2, 0, 1, 2)
   \<and> overlap (item_box (items overlap_engine ! 1)) (item_box (items overlap_engine ! 3))
   \<and> \<not> no_overlap overlap_engine"
  by code_simp

text \<open>
  C5.  In a bin of width 4 and height 4 with merge enabled, after first-fit inserts of
  items (1, 2) and (1, 1), the first-fit insert of an item (2, 1) places it and then runs
  the merge pass on the free list [(2, 1, 2, 0), (3, 1, 1, 1), (2, 1, 2, 2), (4, 1, 0, 3)].
  Its first iteration removes (2, 1, 2, 0) and (3, 1, 1, 1), which share neither x and
  width nor y and height, and appends (2, 2, 2, 0).
\<close>

theorem merge_of_unrelated_rectangles:
  "insert_seq (init 4 4 True True ''default'')
     [(new_item 1 2, ''first_fit''), (new_item 1 1, ''first_fit'')]
     = Inr ([True, True], premerge_engine)
   \<and> first_fit premerge_engine (new_item 2 1)
       = (True, (new_item 2 1)\<lparr>CornerPoint := Some (0, 2)\<rparr>, placed_engine)
   \<and> freerects placed_engine ! 0 = FreeRectangle 2 1 2 0
   \<and> merge_step (FreeRectangle 2 1 2 0) (freerects placed_engine)
       = Inr [FreeRectangle 2 1 2 2, FreeRectangle 4 1 0 3, FreeRectangle 2 2 2 0]
   \<and> \<not> spec_mergeable (FreeRectangle 2 1 2 0) (FreeRectangle 3 1 1 1)
   \<and> rectangle_merge placed_engine
       = Inr (placed_engine\<lparr>freerects := [FreeRectangle 4 1 0 3, FreeRectangle 2 3 2 0]\<rparr>)
   \<and> insert_item premerge_engine (new_item 2 1) ''first_fit''
       = Inr (True, (new_item 2 1)\<lparr>CornerPoint := Some (0, 2)\<rparr>,
              placed_engine\<lparr>freerects := [FreeRectangle 4 1 0 3, FreeRectangle 2 3 2 0]\<rparr>)"
  by code_simp

text \<open>
  C10.  In a bin of width 6 and height 4 with rotation off, merge enabled and the policy
  \<^verbatim>\<open>SplitShorterAxis\<close>, five \<^verbatim>\<open>worst_area_fit\<close> inserts of items (2, 1), (1, 2),
  (2, 1), (2, 1), (1, 1) succeed, and the sixth insert, of an item (1, 2), places the item
  and then raises \<^verbatim>\<open>ValueError\<close> in its merge pass: at the third free rectangle
  (1, 1, 1, 1) the first merge removes it and the second merge removes it again.
\<close>

theorem merge_raises_value_error:
  "insert_seq (init 6 4 False True ''SplitShorterAxis'')
     [(new_item 2 1, ''worst_area_fit''), (new_item 1 2, ''worst_area_fit''),
      (new_item 2 1, ''worst_area_fit''), (new_item 2 1, ''worst_area_fit''),
      (new_item 1 1, ''worst_area_fit'')]
     = Inr ([True, True, True, True, True], raise_engine)
   \<and> generic_algo raise_engine (new_item 1 2) Area (>)
       = (True, (new_item 1 2)\<lparr>CornerPoint := Some (0, 2)\<rparr>, raise_placed)
   \<and> merge_step (freerects raise_placed ! 0) (freerects raise_placed) = Inr (freerects raise_placed)
   \<and> merge_step (freerects raise_placed ! 1) (freerects raise_placed) = Inr (freerects raise_placed)
   \<and> freerects raise_placed ! 2 = FreeRectangle 1 1 1 1
   \<and> merge_step (FreeRectangle 1 1 1 1) (freerects raise_placed) = Inl ValueError
   \<and> rectangle_merge raise_placed = Inl ValueError
   \<and> insert_item raise_engine (new_item 1 2) ''worst_area_fit'' = Inl ValueError"
  by code_simp

end
